theory Spec2Isabelle
  imports Main
begin

section \<open>JavaScript values and strings\<close>

text \<open>
  A string is a list of characters, each standing for one UTF-16 code unit below 256
  (Latin-1). Request-body fields are untyped in the handlers (\<open>req.body\<close>), so they are
  values of \<open>jsval\<close>: absent, \<open>null\<close>, an integral number, \<open>NaN\<close> (only ever produced by
  \<open>parseInt\<close>) or a string. Booleans, arrays, objects and fractional numbers are not
  in the model.
\<close>

datatype jsval = Undefined | Null | Num int | NaN | Str string

fun truthy :: "jsval \<Rightarrow> bool" where
  "truthy Undefined = False"
| "truthy Null = False"
| "truthy (Num n) = (n \<noteq> 0)"
| "truthy NaN = False"
| "truthy (Str s) = (s \<noteq> [])"

fun typeof :: "jsval \<Rightarrow> string" where
  "typeof Undefined = ''undefined''"
| "typeof Null = ''object''"
| "typeof (Num n) = ''number''"
| "typeof NaN = ''number''"
| "typeof (Str s) = ''string''"

definition isWhiteSpace :: "char \<Rightarrow> bool" where
  \<comment> \<open>WhiteSpace and LineTerminator code units below 256: TAB, LF, VT, FF, CR, SP, NBSP\<close>
  "isWhiteSpace c = (of_char c \<in> {9, 10, 11, 12, 13, 32, 160 :: nat})"

definition trim :: "string \<Rightarrow> string" where
  "trim s = rev (dropWhile isWhiteSpace (rev (dropWhile isWhiteSpace s)))"

definition toLowerCaseChar :: "char \<Rightarrow> char" where
  "toLowerCaseChar c =
     (let n = (of_char c :: nat)
      in if (65 \<le> n \<and> n \<le> 90) \<or> (192 \<le> n \<and> n \<le> 222 \<and> n \<noteq> 215)
         then char_of (n + 32) else c)"

definition toLowerCase :: "string \<Rightarrow> string" where
  "toLowerCase s = map toLowerCaseChar s"

definition startsWith :: "string \<Rightarrow> string \<Rightarrow> bool" where
  "startsWith s q = (take (length q) s = q)"

text \<open>\<open>String.prototype.includes\<close> (the name is a keyword of Isabelle): the search string occurs at some position.\<close>

fun includesStr :: "string \<Rightarrow> string \<Rightarrow> bool" where
  "includesStr [] q = (q = [])"
| "includesStr (c # cs) q = (startsWith (c # cs) q \<or> includesStr cs q)"

definition digitValue :: "char \<Rightarrow> nat option" where
  "digitValue c =
     (let n = (of_char c :: nat)
      in if 48 \<le> n \<and> n \<le> 57 then Some (n - 48)
         else if 97 \<le> n \<and> n \<le> 122 then Some (n - 87)
         else if 65 \<le> n \<and> n \<le> 90 then Some (n - 55)
         else None)"

definition isDigitIn :: "nat \<Rightarrow> char \<Rightarrow> bool" where
  "isDigitIn radix c = (case digitValue c of None \<Rightarrow> False | Some d \<Rightarrow> d < radix)"

text \<open>
  \<open>parseInt(s)\<close> with no radix: leading white space is skipped, then an optional sign,
  then \<open>0x\<close>/\<open>0X\<close> selects radix 16; the longest run of digits is read and the rest is
  ignored; no digit at all gives \<open>NaN\<close>. (The result is exact here; the loss of precision
  of a double beyond \<open>2^53\<close> is not modelled.)
\<close>

definition parseInt :: "string \<Rightarrow> jsval" where
  "parseInt s =
     (let s1 = dropWhile isWhiteSpace s;
          sign = (if take 1 s1 = ''-'' then - 1 else (1 :: int));
          s2 = (if take 1 s1 = ''-'' \<or> take 1 s1 = ''+'' then drop 1 s1 else s1);
          hex = (take 2 s2 = ''0x'' \<or> take 2 s2 = ''0X'');
          radix = (if hex then 16 else (10 :: nat));
          s3 = (if hex then drop 2 s2 else s2);
          ds = takeWhile (isDigitIn radix) s3
      in if ds = [] then NaN
         else Num (sign * int (foldl (\<lambda>a c. a * radix + the (digitValue c)) 0 ds)))"

text \<open>
  \<open>parseInt(v.toString())\<close> for a truthy body value: a number prints as its decimal
  digits and reads back as itself (for magnitudes below \<open>10^21\<close>, where \<open>toString\<close>
  does not switch to exponent notation).
\<close>

fun parseIntOfToString :: "jsval \<Rightarrow> jsval" where
  "parseIntOfToString (Str s) = parseInt s"
| "parseIntOfToString (Num n) = Num n"
| "parseIntOfToString v = NaN"

section \<open>Data model\<close>

datatype role = User | Assistant | System

record persona =
  p_id :: int
  p_name :: string
  p_era :: string
  p_category :: string
  p_description :: string
  p_imageUrl :: string

record session =
  s_sessionId :: string
  s_currentPersonaId :: "int option"

record message =
  m_id :: nat
  m_sessionId :: string
  m_role :: role
  m_content :: string
  m_personaId :: "int option"

text \<open>The data handed to \<open>storage.createMessage\<close> and \<open>storage.createChatSession\<close>.\<close>

record insertMessage =
  im_sessionId :: string
  im_role :: role
  im_content :: string
  im_personaId :: "int option"

record insertChatSession =
  is_sessionId :: string
  is_currentPersonaId :: "int option"

text \<open>
  What a handler's \<open>try\<close> block can throw: a schema error, a plain \<open>Error\<close> with its
  message, and the two failure kinds of the storage.
\<close>

datatype exn = ZodError | Error string | ValidationError | NotFoundError

section \<open>Storage\<close>

text \<open>
  \<open>./storage\<close> is imported by the routes but is not among the sources. Its operations
  are modelled from sections 3 and 4.1 to 4.3 of the specification. Creation time
  stamps are left out.
\<close>

record storage =
  personas :: "persona list"
  sessions :: "session list"
  messages :: "message list"
  nextMessageId :: nat

text \<open>Modelled from the spec: \<open>storage.getPersonas\<close>, "list() -> all personas".\<close>

definition getPersonas :: "storage \<Rightarrow> persona list" where
  "getPersonas st = personas st"

text \<open>Modelled from the spec: \<open>storage.getPersonaById\<close>, "getById(id) -> Persona | not-found".\<close>

definition getPersonaById :: "storage \<Rightarrow> int \<Rightarrow> persona option" where
  "getPersonaById st n = find (\<lambda>p. p_id p = n) (personas st)"

text \<open>
  Modelled from the spec: \<open>storage.searchPersonas\<close>, "search(query) -> subset whose name
  or description contains query, case-insensitively".
\<close>

definition searchPersonas :: "storage \<Rightarrow> string \<Rightarrow> persona list" where
  "searchPersonas st query =
     filter (\<lambda>p. includesStr (toLowerCase (p_name p)) (toLowerCase query)
               \<or> includesStr (toLowerCase (p_description p)) (toLowerCase query))
            (personas st)"

text \<open>Modelled from the spec: \<open>storage.getChatSessionById\<close>, "getSession(id) -> Session | not-found".\<close>

definition getChatSessionById :: "storage \<Rightarrow> string \<Rightarrow> session option" where
  "getChatSessionById st sid = find (\<lambda>s. s_sessionId s = sid) (sessions st)"

text \<open>
  Modelled from the spec: \<open>storage.createChatSession\<close>, "createSession(personaId?) ->
  Session ... optionally binds a persona", and "calling create with an identifier that
  already exists returns the existing session unchanged".
\<close>

definition createChatSession :: "storage \<Rightarrow> insertChatSession \<Rightarrow> exn + (session \<times> storage)" where
  "createChatSession st d =
     (case getChatSessionById st (is_sessionId d) of
        Some s \<Rightarrow> Inr (s, st)
      | None \<Rightarrow>
          (let s = \<lparr>s_sessionId = is_sessionId d, s_currentPersonaId = is_currentPersonaId d\<rparr>
           in Inr (s, st\<lparr>sessions := sessions st @ [s]\<rparr>)))"

text \<open>
  Modelled from the spec: \<open>storage.updateChatSessionPersona\<close>, "setSessionPersona(id,
  personaId) -> Session: fails with NotFoundError if session or persona does not exist;
  ... does NOT itself write the system message".
\<close>

definition updateChatSessionPersona :: "storage \<Rightarrow> string \<Rightarrow> int \<Rightarrow> exn + (session \<times> storage)" where
  "updateChatSessionPersona st sid n =
     (case getChatSessionById st sid of
        None \<Rightarrow> Inl NotFoundError
      | Some s \<Rightarrow>
          (case getPersonaById st n of
             None \<Rightarrow> Inl NotFoundError
           | Some p \<Rightarrow>
               Inr (s\<lparr>s_currentPersonaId := Some n\<rparr>,
                    st\<lparr>sessions :=
                         map (\<lambda>x. if s_sessionId x = sid then x\<lparr>s_currentPersonaId := Some n\<rparr> else x)
                             (sessions st)\<rparr>)))"

text \<open>
  Modelled from the spec: \<open>storage.createMessage\<close>, "append(sessionId, role, content,
  personaId) -> Message: fails with ValidationError if content is empty/whitespace-only
  or session does not exist"; identities are sequential and the log is append-only.
\<close>

definition createMessage :: "storage \<Rightarrow> insertMessage \<Rightarrow> exn + (message \<times> storage)" where
  "createMessage st d =
     (if trim (im_content d) = [] \<or> getChatSessionById st (im_sessionId d) = None
      then Inl ValidationError
      else (let m = \<lparr>m_id = nextMessageId st, m_sessionId = im_sessionId d, m_role = im_role d,
                      m_content = im_content d, m_personaId = im_personaId d\<rparr>
            in Inr (m, st\<lparr>messages := messages st @ [m], nextMessageId := Suc (nextMessageId st)\<rparr>)))"

text \<open>
  Modelled from the spec: \<open>storage.getMessagesBySessionId\<close>, "listBySession(sessionId) ->
  ordered sequence of Message ... in the order they were appended".
\<close>

definition getMessagesBySessionId :: "storage \<Rightarrow> string \<Rightarrow> message list" where
  "getMessagesBySessionId st sid = filter (\<lambda>m. m_sessionId m = sid) (messages st)"

section \<open>Schemas and the response generator\<close>

text \<open>
  Modelled from the spec: \<open>insertMessageSchema\<close> of \<open>@shared/schema\<close> is not among the
  sources. It checks the shape of section 3 (a string session token, a role, a string
  content, an optional numeric persona), which the typed records built by the handlers
  always have.
\<close>

definition insertMessageSchema_parse :: "insertMessage \<Rightarrow> exn + insertMessage" where
  "insertMessageSchema_parse d = Inr d"

text \<open>
  Modelled from the spec: \<open>insertChatSessionSchema\<close>, likewise: a string token and an
  optional numeric persona reference.
\<close>

definition insertChatSessionSchema_parse :: "insertChatSession \<Rightarrow> exn + insertChatSession" where
  "insertChatSessionSchema_parse d = Inr d"

text \<open>
  The external service is a parameter: given the persona, the prior conversation and the
  new text it answers with a text, or \<open>None\<close> when the call fails.
\<close>

type_synonym generator = "persona \<Rightarrow> (role \<times> string) list \<Rightarrow> string \<Rightarrow> string option"

text \<open>
  Modelled from the spec: \<open>generatePersonaResponse\<close> of \<open>./lib/openai\<close> is not among the
  sources. By section 4.4 a failed call surfaces as one distinct error kind; the route
  recognises it by the message below.
\<close>

definition generatePersonaResponse ::
  "generator \<Rightarrow> persona \<Rightarrow> (role \<times> string) list \<Rightarrow> string \<Rightarrow> exn + string" where
  "generatePersonaResponse gen p history userMessage =
     (case gen p history userMessage of
        None \<Rightarrow> Inl (Error ''Failed to generate response from OpenAI API'')
      | Some t \<Rightarrow> Inr t)"

section \<open>Responses\<close>

datatype body =
    Message string
  | Personas "persona list"
  | SessionJson session
  | Messages "message list"
  | MessagePair message message
  | Empty

datatype response = Response (status: nat) (body: body)

section \<open>Routes (src/server/routes.ts)\<close>

subsection \<open>GET /api/personas/search\<close>

text \<open>The query parameter \<open>q\<close> is absent or a string.\<close>

definition searchPersonasRoute :: "storage \<Rightarrow> string option \<Rightarrow> response \<times> storage" where
  "searchPersonasRoute st q =
     (let query = (case q of None \<Rightarrow> '''' | Some s \<Rightarrow> if s = [] then '''' else s)
      in if query = [] then (Response 200 (Personas (getPersonas st)), st)
         else (Response 200 (Personas (searchPersonas st query)), st))"

subsection \<open>POST /api/sessions\<close>

definition createSession_catch :: "exn \<Rightarrow> response" where
  "createSession_catch e =
     (if e = ZodError then Response 400 (Message ''Invalid session data'')
      else Response 500 (Message ''Failed to create or get chat session''))"

text \<open>\<open>personaId || undefined\<close>, as the optional numeric field of the session data.\<close>

fun orUndefined :: "jsval \<Rightarrow> int option" where
  "orUndefined (Num n) = (if n = 0 then None else Some n)"
| "orUndefined v = None"

definition createNewSession :: "storage \<Rightarrow> string \<Rightarrow> jsval \<Rightarrow> response \<times> storage" where
  "createNewSession st sessionId personaId =
     (let sessionData = \<lparr>is_sessionId = sessionId, is_currentPersonaId = orUndefined personaId\<rparr>
      in case insertChatSessionSchema_parse sessionData of
           Inl e \<Rightarrow> (createSession_catch e, st)
         | Inr validatedData \<Rightarrow>
             (case createChatSession st validatedData of
                Inl e \<Rightarrow> (createSession_catch e, st)
              | Inr (newSession, st') \<Rightarrow> (Response 201 (SessionJson newSession), st')))"

text \<open>Lines 76 to 79: a non-empty string \<open>personaId\<close> is replaced by \<open>parseInt\<close> of it.\<close>

definition validatePersonaId :: "jsval \<Rightarrow> jsval" where
  "validatePersonaId personaId =
     (if truthy personaId \<and> typeof personaId = ''string''
      then (case personaId of Str s \<Rightarrow> parseInt s | v \<Rightarrow> v)
      else personaId)"

text \<open>
  The first argument is the identifier \<open>nanoid()\<close> returns; the body's \<open>sessionId\<close> is
  absent (\<open>None\<close>) or a string. After line 79 a truthy \<open>personaId\<close> is a non-zero number,
  so the test of line 100 is written on \<open>Num n\<close>.
\<close>

definition createOrGetSession ::
  "string \<Rightarrow> storage \<Rightarrow> string option \<Rightarrow> jsval \<Rightarrow> response \<times> storage" where
  "createOrGetSession nanoid st sessionId personaId0 =
     (let personaId = validatePersonaId personaId0
      in case sessionId of
           None \<Rightarrow> createNewSession st nanoid personaId
         | Some sid \<Rightarrow>
            if sid = [] then createNewSession st nanoid personaId
            else
             (let existingSession = getChatSessionById st sid
              in case existingSession of
                   Some es \<Rightarrow>
                     (case personaId of
                        Num n \<Rightarrow>
                          if n \<noteq> 0 \<and> s_currentPersonaId es \<noteq> Some n
                          then (case updateChatSessionPersona st sid n of
                                  Inl e \<Rightarrow> (createSession_catch e, st)
                                | Inr (updatedSession, st') \<Rightarrow>
                                    (Response 200 (SessionJson updatedSession), st'))
                          else (Response 200 (SessionJson es), st)
                      | v \<Rightarrow> (Response 200 (SessionJson es), st))
                 | None \<Rightarrow> createNewSession st sid personaId))"

subsection \<open>PATCH /api/sessions/:sessionId/persona\<close>

definition changePersona :: "storage \<Rightarrow> string \<Rightarrow> jsval \<Rightarrow> response \<times> storage" where
  "changePersona st sessionId personaId =
     (if \<not> truthy personaId \<or> parseIntOfToString personaId = NaN
      then (Response 400 (Message ''Invalid persona ID''), st)
      else
        (case parseIntOfToString personaId of
           Num parsedPersonaId \<Rightarrow>
             (case getPersonaById st parsedPersonaId of
                None \<Rightarrow> (Response 404 (Message ''Persona not found''), st)
              | Some persona \<Rightarrow>
                  (case getChatSessionById st sessionId of
                     None \<Rightarrow> (Response 404 (Message ''Chat session not found''), st)
                   | Some session \<Rightarrow>
                       (case updateChatSessionPersona st sessionId parsedPersonaId of
                          Inl e \<Rightarrow> (Response 500 (Message ''Failed to change persona''), st)
                        | Inr (updatedSession, st1) \<Rightarrow>
                            (case createMessage st1
                                    \<lparr>im_sessionId = sessionId, im_role = System,
                                     im_content = ''You are now chatting with '' @ p_name persona @ ''.'',
                                     im_personaId = Some parsedPersonaId\<rparr> of
                               Inl e \<Rightarrow> (Response 500 (Message ''Failed to change persona''), st1)
                             | Inr (m, st2) \<Rightarrow> (Response 200 (SessionJson updatedSession), st2)))))
         | v \<Rightarrow> (Response 400 (Message ''Invalid persona ID''), st)))"

subsection \<open>GET /api/sessions/:sessionId/messages\<close>

definition listMessages :: "storage \<Rightarrow> string \<Rightarrow> response \<times> storage" where
  "listMessages st sessionId =
     (case getChatSessionById st sessionId of
        None \<Rightarrow> (Response 404 (Message ''Chat session not found''), st)
      | Some session \<Rightarrow> (Response 200 (Messages (getMessagesBySessionId st sessionId)), st))"

subsection \<open>POST /api/sessions/:sessionId/messages\<close>

definition sendMessage_catch :: "exn \<Rightarrow> response" where
  "sendMessage_catch e =
     (if e = ZodError then Response 400 (Message ''Invalid message data'')
      else if e = Error ''Failed to generate response from OpenAI API''
      then Response 503 (Message ''Unable to generate response from AI service. Please try again later.'')
      else Response 500 (Message ''Failed to process message''))"

text \<open>Lines 246 to 261: save the generator's answer and return both messages.\<close>

definition saveAssistantMessage ::
  "storage \<Rightarrow> string \<Rightarrow> int \<Rightarrow> message \<Rightarrow> string \<Rightarrow> response \<times> storage" where
  "saveAssistantMessage st sessionId currentPersonaId savedUserMessage aiContent =
     (case insertMessageSchema_parse
             \<lparr>im_sessionId = sessionId, im_role = Assistant, im_content = aiContent,
              im_personaId = Some currentPersonaId\<rparr> of
        Inl e \<Rightarrow> (sendMessage_catch e, st)
      | Inr validatedAssistantMessage \<Rightarrow>
          (case createMessage st validatedAssistantMessage of
             Inl e \<Rightarrow> (sendMessage_catch e, st)
           | Inr (savedAssistantMessage, st') \<Rightarrow>
               (Response 201 (MessagePair savedUserMessage savedAssistantMessage), st')))"

text \<open>Lines 232 to 237: the stored messages without the system ones, as role and content.\<close>

definition conversationHistory :: "message list \<Rightarrow> (role \<times> string) list" where
  "conversationHistory allMessages =
     map (\<lambda>msg. (m_role msg, m_content msg)) (filter (\<lambda>msg. m_role msg \<noteq> System) allMessages)"

text \<open>Lines 228 to 261, once the generator has answered or failed.\<close>

definition respondGenerated ::
  "storage \<Rightarrow> string \<Rightarrow> int \<Rightarrow> message \<Rightarrow> exn + string \<Rightarrow> response \<times> storage" where
  "respondGenerated st sessionId currentPersonaId savedUserMessage r =
     (case r of
        Inl e \<Rightarrow> (sendMessage_catch e, st)
      | Inr aiContent \<Rightarrow> saveAssistantMessage st sessionId currentPersonaId savedUserMessage aiContent)"

definition sendMessage :: "generator \<Rightarrow> storage \<Rightarrow> string \<Rightarrow> jsval \<Rightarrow> response \<times> storage" where
  "sendMessage gen st sessionId content =
     (if \<not> truthy content \<or> typeof content \<noteq> ''string''
         \<or> (case content of Str c \<Rightarrow> trim c = [] | v \<Rightarrow> True)
      then (Response 400 (Message ''Message content is required''), st)
      else
        (let c = (case content of Str c \<Rightarrow> c | v \<Rightarrow> [])
         in case getChatSessionById st sessionId of
              None \<Rightarrow> (Response 404 (Message ''Chat session not found''), st)
            | Some session \<Rightarrow>
                (case s_currentPersonaId session of
                   None \<Rightarrow> (Response 400 (Message ''No persona selected for this chat session''), st)
                 | Some pid \<Rightarrow>
                     if pid = 0
                     then (Response 400 (Message ''No persona selected for this chat session''), st)
                     else
                       (case getPersonaById st pid of
                          None \<Rightarrow> (Response 404 (Message ''Persona not found''), st)
                        | Some persona \<Rightarrow>
                            (case insertMessageSchema_parse
                                    \<lparr>im_sessionId = sessionId, im_role = User, im_content = c,
                                     im_personaId = Some pid\<rparr> of
                               Inl e \<Rightarrow> (sendMessage_catch e, st)
                             | Inr validatedUserMessage \<Rightarrow>
                                 (case createMessage st validatedUserMessage of
                                    Inl e \<Rightarrow> (sendMessage_catch e, st)
                                  | Inr (savedUserMessage, st1) \<Rightarrow>
                                      (let allMessages = getMessagesBySessionId st1 sessionId
                                       in respondGenerated st1 sessionId pid savedUserMessage
                                            (generatePersonaResponse gen persona
                                               (butlast (conversationHistory allMessages)) c))))))))"

subsection \<open>DELETE /api/sessions/:sessionId/messages\<close>

text \<open>The handler answers 204 and calls nothing.\<close>

definition clearMessages :: "storage \<Rightarrow> string \<Rightarrow> response \<times> storage" where
  "clearMessages st sessionId = (Response 204 Empty, st)"

section \<open>The sidebar's filter (src/client/src/components/sidebar.tsx)\<close>

definition filteredPersonas :: "persona list \<Rightarrow> string \<Rightarrow> string \<Rightarrow> persona list" where
  "filteredPersonas ps searchQuery selectedCategory =
     filter (\<lambda>persona.
        (let matchesSearch = (searchQuery = []
               \<or> includesStr (toLowerCase (p_name persona)) (toLowerCase searchQuery)
               \<or> includesStr (toLowerCase (p_description persona)) (toLowerCase searchQuery));
             matchesCategory = (selectedCategory = ''All'' \<or> p_category persona = selectedCategory)
         in matchesSearch \<and> matchesCategory)) ps"

section \<open>Notions of the specification\<close>

text \<open>
  "contains query, case-insensitively", in the specification's words: the query, in
  lower case, occurs somewhere in the text, in lower case.
\<close>

definition containsIgnoringCase :: "string \<Rightarrow> string \<Rightarrow> bool" where
  "containsIgnoringCase text query = (\<exists>pre suf. toLowerCase text = pre @ toLowerCase query @ suf)"

text \<open>"A Session's persona reference, when present, must name an existing Persona."\<close>

definition personaRefsValid :: "storage \<Rightarrow> bool" where
  "personaRefsValid st =
     list_all (\<lambda>s. case s_currentPersonaId s of None \<Rightarrow> True
                              | Some n \<Rightarrow> getPersonaById st n \<noteq> None) (sessions st)"

section \<open>Example data\<close>

definition ada :: persona where
  "ada = \<lparr>p_id = 1, p_name = ''Ada Lovelace'', p_era = ''1815-1852'', p_category = ''Science'',
          p_description = ''Mathematician and writer'', p_imageUrl = ''ada.png''\<rparr>"

definition plato :: persona where
  "plato = \<lparr>p_id = 2, p_name = ''Plato'', p_era = ''428-348 BC'', p_category = ''Philosophy'',
            p_description = ''Athenian philosopher'', p_imageUrl = ''plato.png''\<rparr>"

definition greeting :: message where
  "greeting = \<lparr>m_id = 0, m_sessionId = ''s1'', m_role = System,
               m_content = ''You are now chatting with Ada Lovelace.'', m_personaId = Some 1\<rparr>"

text \<open>
  Session \<open>s1\<close> talks to persona 1 and holds one system message, \<open>s2\<close> has no persona.
\<close>

definition exampleStore :: storage where
  "exampleStore =
     \<lparr>personas = [ada, plato],
      sessions = [\<lparr>s_sessionId = ''s1'', s_currentPersonaId = Some 1\<rparr>,
                  \<lparr>s_sessionId = ''s2'', s_currentPersonaId = None\<rparr>],
      messages = [greeting],
      nextMessageId = 1\<rparr>"

text \<open>The same store with a third session whose persona 7 is not in the catalog.\<close>

definition danglingStore :: storage where
  "danglingStore =
     exampleStore\<lparr>sessions := sessions exampleStore
                     @ [\<lparr>s_sessionId = ''s3'', s_currentPersonaId = Some 7\<rparr>]\<rparr>"

definition failingGenerator :: generator where
  "failingGenerator p history userMessage = None"

definition echoGenerator :: generator where
  "echoGenerator p history userMessage = Some (''Echo: '' @ userMessage)"

text \<open>A generator that fails exactly when it is handed an empty history.\<close>

definition probeGenerator :: generator where
  "probeGenerator p history userMessage = (if history = [] then None else Some ''ok'')"

text \<open>
  "prior conversation as an ordered sequence of (role, content) pairs", in the
  specification's words: every message of the session's log, in order.
\<close>

definition priorConversation :: "storage \<Rightarrow> string \<Rightarrow> (role \<times> string) list" where
  "priorConversation st sid = map (\<lambda>m. (m_role m, m_content m)) (getMessagesBySessionId st sid)"

text \<open>The example store after one exchange in session \<open>s1\<close>.\<close>

definition chattedStore :: storage where
  "chattedStore =
     exampleStore\<lparr>messages :=
        [greeting,
         \<lparr>m_id = 1, m_sessionId = ''s1'', m_role = User, m_content = ''Hi'', m_personaId = Some 1\<rparr>,
         \<lparr>m_id = 2, m_sessionId = ''s1'', m_role = Assistant, m_content = ''Good day.'',
           m_personaId = Some 1\<rparr>],
        nextMessageId := 3\<rparr>"

section \<open>Auxiliary facts\<close>

subsection \<open>Strings\<close>

lemma all_dropWhile_iff: "(\<forall>x\<in>set (dropWhile P s). P x) = (\<forall>x\<in>set s. P x)"
proof
  assume a: "\<forall>x\<in>set (dropWhile P s). P x"
  show "\<forall>x\<in>set s. P x"
  proof (rule ccontr)
    assume "\<not> (\<forall>x\<in>set s. P x)"
    then have n: "dropWhile P s \<noteq> []" by simp
    then have "hd (dropWhile P s) \<in> set (dropWhile P s)" by simp
    moreover have "\<not> P (hd (dropWhile P s))" using n by (rule hd_dropWhile)
    ultimately show False using a by blast
  qed
next
  assume "\<forall>x\<in>set s. P x"
  then show "\<forall>x\<in>set (dropWhile P s). P x" by (auto dest: set_dropWhileD)
qed

lemma trim_empty_iff: "(trim s = []) = (\<forall>c\<in>set s. isWhiteSpace c)"
  unfolding trim_def by (simp only: rev_is_Nil_conv dropWhile_eq_Nil_conv set_rev all_dropWhile_iff)

lemma startsWith_iff: "startsWith s q = (\<exists>suf. s = q @ suf)"
  unfolding startsWith_def
  by (metis append_eq_conv_conj append_take_drop_id)

lemma includesStr_iff: "includesStr s q = (\<exists>pre suf. s = pre @ q @ suf)"
proof (induction s)
  case Nil
  then show ?case by auto
next
  case (Cons c cs)
  show ?case
  proof
    assume "includesStr (c # cs) q"
    then consider "startsWith (c # cs) q" | "includesStr cs q" by auto
    then show "\<exists>pre suf. c # cs = pre @ q @ suf"
    proof cases
      case 1
      then obtain suf where "c # cs = q @ suf" by (auto simp: startsWith_iff)
      then have "c # cs = [] @ q @ suf" by simp
      then show ?thesis by blast
    next
      case 2
      then obtain pre suf where "cs = pre @ q @ suf" using Cons.IH by auto
      then have "c # cs = (c # pre) @ q @ suf" by simp
      then show ?thesis by blast
    qed
  next
    assume "\<exists>pre suf. c # cs = pre @ q @ suf"
    then obtain pre suf where e: "c # cs = pre @ q @ suf" by blast
    show "includesStr (c # cs) q"
    proof (cases pre)
      case Nil
      with e have "startsWith (c # cs) q" by (auto simp: startsWith_iff)
      then show ?thesis by simp
    next
      case (Cons a pre')
      with e have "cs = pre' @ q @ suf" by simp
      then have "includesStr cs q" using Cons.IH by blast
      then show ?thesis by simp
    qed
  qed
qed

subsection \<open>Storage and the send-message route\<close>

lemma containsIgnoringCase_code:
  "containsIgnoringCase t q = includesStr (toLowerCase t) (toLowerCase q)"
  by (simp add: containsIgnoringCase_def includesStr_iff)

lemma createMessage_ok:
  assumes "trim (im_content d) \<noteq> []" and "getChatSessionById st (im_sessionId d) = Some s"
  shows "createMessage st d =
           Inr (\<lparr>m_id = nextMessageId st, m_sessionId = im_sessionId d, m_role = im_role d,
                 m_content = im_content d, m_personaId = im_personaId d\<rparr>,
                st\<lparr>messages := messages st
                        @ [\<lparr>m_id = nextMessageId st, m_sessionId = im_sessionId d, m_role = im_role d,
                            m_content = im_content d, m_personaId = im_personaId d\<rparr>],
                   nextMessageId := Suc (nextMessageId st)\<rparr>)"
  using assms by (simp add: createMessage_def Let_def)

lemma getMessagesBySessionId_append:
  "getMessagesBySessionId (st\<lparr>messages := messages st @ [m], nextMessageId := k\<rparr>) sid =
     getMessagesBySessionId st sid @ (if m_sessionId m = sid then [m] else [])"
  by (simp add: getMessagesBySessionId_def)

lemma getChatSessionById_append:
  "getChatSessionById (st\<lparr>messages := ms, nextMessageId := k\<rparr>) sid = getChatSessionById st sid"
  by (simp add: getChatSessionById_def)

lemma conversationHistory_snoc_user:
  "m_role m \<noteq> System \<Longrightarrow> butlast (conversationHistory (ms @ [m])) = conversationHistory ms"
  by (simp add: conversationHistory_def)

lemma sendMessage_after_checks:
  assumes "trim c \<noteq> []"
    and "getChatSessionById st sid = Some s"
    and "s_currentPersonaId s = Some pid"
    and "pid \<noteq> 0"
    and "getPersonaById st pid = Some p"
  shows "sendMessage gen st sid (Str c) =
     (let u = \<lparr>m_id = nextMessageId st, m_sessionId = sid, m_role = User, m_content = c,
                m_personaId = Some pid\<rparr>
      in respondGenerated
           (st\<lparr>messages := messages st @ [u], nextMessageId := Suc (nextMessageId st)\<rparr>)
           sid pid u
           (generatePersonaResponse gen p (conversationHistory (getMessagesBySessionId st sid)) c))"
proof -
  have ne: "c \<noteq> []" using assms(1) by (auto simp: trim_def)
  let ?d = "\<lparr>im_sessionId = sid, im_role = User, im_content = c, im_personaId = Some pid\<rparr>"
  have cm: "createMessage st ?d =
           Inr (\<lparr>m_id = nextMessageId st, m_sessionId = sid, m_role = User,
                 m_content = c, m_personaId = Some pid\<rparr>,
                st\<lparr>messages := messages st
                        @ [\<lparr>m_id = nextMessageId st, m_sessionId = sid, m_role = User,
                            m_content = c, m_personaId = Some pid\<rparr>],
                   nextMessageId := Suc (nextMessageId st)\<rparr>)"
    using createMessage_ok [of ?d st s] assms(1,2) by simp
  show ?thesis
    using assms ne
    by (simp add: sendMessage_def insertMessageSchema_parse_def cm Let_def
        getMessagesBySessionId_append conversationHistory_snoc_user)
qed

subsection \<open>The example store\<close>

lemma exampleStore_session_s1:
  "getChatSessionById exampleStore ''s1'' = Some \<lparr>s_sessionId = ''s1'', s_currentPersonaId = Some 1\<rparr>"
  by (simp add: getChatSessionById_def exampleStore_def)

lemma exampleStore_persona_1: "getPersonaById exampleStore 1 = Some ada"
  by (simp add: getPersonaById_def exampleStore_def ada_def)

lemma exampleStore_log_s1: "getMessagesBySessionId exampleStore ''s1'' = [greeting]"
  by (simp add: getMessagesBySessionId_def exampleStore_def greeting_def)

lemma trim_Hello: "trim ''Hello'' \<noteq> []"
  by (simp add: trim_def isWhiteSpace_def)

section \<open>Sending a message\<close>

text \<open>
  Claim C1. When the request passes every check and the generator call fails, the
  answer has status 503, which is none of 400, 404 and 500, and the session's log is
  the log before the request followed by the user's message alone: its length grows by
  exactly one.
\<close>

theorem sendMessage_generator_failure:
  assumes "trim c \<noteq> []"
    and "getChatSessionById st sid = Some s"
    and "s_currentPersonaId s = Some pid"
    and "pid \<noteq> 0"
    and "getPersonaById st pid = Some p"
    and "gen p (conversationHistory (getMessagesBySessionId st sid)) c = None"
  shows "status (fst (sendMessage gen st sid (Str c))) = 503
       \<and> status (fst (sendMessage gen st sid (Str c))) \<notin> {400, 404, 500}
       \<and> getMessagesBySessionId (snd (sendMessage gen st sid (Str c))) sid =
           getMessagesBySessionId st sid
             @ [\<lparr>m_id = nextMessageId st, m_sessionId = sid, m_role = User, m_content = c,
                  m_personaId = Some pid\<rparr>]
       \<and> length (getMessagesBySessionId (snd (sendMessage gen st sid (Str c))) sid) =
           length (getMessagesBySessionId st sid) + 1"
  using assms(6)
  by (simp add: sendMessage_after_checks [OF assms(1-5)] Let_def respondGenerated_def
      generatePersonaResponse_def sendMessage_catch_def getMessagesBySessionId_append)

theorem sendMessage_generator_failure_witness:
  "trim ''Hello'' \<noteq> []
   \<and> getChatSessionById exampleStore ''s1'' = Some \<lparr>s_sessionId = ''s1'', s_currentPersonaId = Some 1\<rparr>
   \<and> getPersonaById exampleStore 1 = Some ada
   \<and> failingGenerator ada (conversationHistory (getMessagesBySessionId exampleStore ''s1'')) ''Hello'' = None
   \<and> status (fst (sendMessage failingGenerator exampleStore ''s1'' (Str ''Hello''))) = 503
   \<and> getMessagesBySessionId (snd (sendMessage failingGenerator exampleStore ''s1'' (Str ''Hello''))) ''s1'' =
        [greeting, \<lparr>m_id = 1, m_sessionId = ''s1'', m_role = User, m_content = ''Hello'',
                    m_personaId = Some 1\<rparr>]"
proof -
  have g: "failingGenerator ada (conversationHistory (getMessagesBySessionId exampleStore ''s1'')) ''Hello'' = None"
    by (simp add: failingGenerator_def)
  have n: "nextMessageId exampleStore = 1" by (simp add: exampleStore_def)
  show ?thesis
    using sendMessage_generator_failure [where c = "''Hello''" and st = exampleStore and sid = "''s1''"
        and s = "\<lparr>s_sessionId = ''s1'', s_currentPersonaId = Some 1\<rparr>" and pid = 1 and p = ada
        and gen = failingGenerator]
      trim_Hello exampleStore_session_s1 exampleStore_persona_1 g exampleStore_log_s1 n
    by simp
qed

text \<open>
  Claim C5. A send-message request whose content is missing, empty or made of white
  space only is answered with status 400, and the store, so the message log of every
  session, is left as it was.
\<close>

theorem sendMessage_rejects_blank_content:
  assumes "content = Undefined \<or> content = Null \<or> (\<exists>s. content = Str s \<and> (\<forall>ch\<in>set s. isWhiteSpace ch))"
  shows "sendMessage gen st sid content = (Response 400 (Message ''Message content is required''), st)
       \<and> getMessagesBySessionId (snd (sendMessage gen st sid content)) sid = getMessagesBySessionId st sid
       \<and> messages (snd (sendMessage gen st sid content)) = messages st"
  using assms by (auto simp: sendMessage_def trim_empty_iff)

theorem sendMessage_rejects_blank_content_witness:
  "sendMessage echoGenerator exampleStore ''s1'' (Str '' '') =
     (Response 400 (Message ''Message content is required''), exampleStore)
   \<and> sendMessage echoGenerator exampleStore ''s1'' (Str []) =
     (Response 400 (Message ''Message content is required''), exampleStore)
   \<and> sendMessage echoGenerator exampleStore ''s1'' Undefined =
     (Response 400 (Message ''Message content is required''), exampleStore)"
proof -
  have w: "\<forall>ch\<in>set '' ''. isWhiteSpace ch" by (simp add: isWhiteSpace_def)
  show ?thesis
    using sendMessage_rejects_blank_content [of "Str '' ''" echoGenerator exampleStore "''s1''"]
      sendMessage_rejects_blank_content [of "Str []" echoGenerator exampleStore "''s1''"]
      sendMessage_rejects_blank_content [of Undefined echoGenerator exampleStore "''s1''"] w
    by simp
qed

subsection \<open>The checks of the send-message route\<close>

lemma saveAssistantMessage_ok:
  assumes "trim t \<noteq> []" and "getChatSessionById st sid = Some s"
  shows "saveAssistantMessage st sid pid u t =
     (Response 201 (MessagePair u
         \<lparr>m_id = nextMessageId st, m_sessionId = sid, m_role = Assistant, m_content = t,
           m_personaId = Some pid\<rparr>),
      st\<lparr>messages := messages st
              @ [\<lparr>m_id = nextMessageId st, m_sessionId = sid, m_role = Assistant, m_content = t,
                  m_personaId = Some pid\<rparr>],
         nextMessageId := Suc (nextMessageId st)\<rparr>)"
  using createMessage_ok [of "\<lparr>im_sessionId = sid, im_role = Assistant, im_content = t,
      im_personaId = Some pid\<rparr>" st s] assms
  by (simp add: saveAssistantMessage_def insertMessageSchema_parse_def)

lemma sendMessage_valid_content:
  assumes "trim c \<noteq> []"
  shows "sendMessage gen st sid (Str c) =
     (case getChatSessionById st sid of
        None \<Rightarrow> (Response 404 (Message ''Chat session not found''), st)
      | Some session \<Rightarrow>
          (case s_currentPersonaId session of
             None \<Rightarrow> (Response 400 (Message ''No persona selected for this chat session''), st)
           | Some pid \<Rightarrow>
               if pid = 0
               then (Response 400 (Message ''No persona selected for this chat session''), st)
               else (case getPersonaById st pid of
                       None \<Rightarrow> (Response 404 (Message ''Persona not found''), st)
                     | Some persona \<Rightarrow> sendMessage gen st sid (Str c))))"
proof -
  have ne: "c \<noteq> []" using assms by (auto simp: trim_def)
  show ?thesis using assms ne
    by (simp add: sendMessage_def Let_def split: option.splits)
qed

text \<open>
  Claim C6. For a request with acceptable content the route answers 404 when the
  session does not exist; otherwise 400 when the session has no persona selected;
  otherwise 404 when the session's persona is not in the catalog; each time with
  the store untouched. When all checks pass and the generator answers with a text the
  log accepts, the answer is 201 with the pair of the user's and the assistant's
  message, which are the two messages appended to the log, in that order.
\<close>

theorem sendMessage_checks_in_order:
  assumes "trim c \<noteq> []"
  shows "(getChatSessionById st sid = None \<longrightarrow>
            sendMessage gen st sid (Str c) = (Response 404 (Message ''Chat session not found''), st))
       \<and> (\<forall>s. getChatSessionById st sid = Some s
              \<and> (s_currentPersonaId s = None \<or> s_currentPersonaId s = Some 0) \<longrightarrow>
            sendMessage gen st sid (Str c) =
              (Response 400 (Message ''No persona selected for this chat session''), st))
       \<and> (\<forall>s pid. getChatSessionById st sid = Some s \<and> s_currentPersonaId s = Some pid \<and> pid \<noteq> 0
              \<and> getPersonaById st pid = None \<longrightarrow>
            sendMessage gen st sid (Str c) = (Response 404 (Message ''Persona not found''), st))
       \<and> (\<forall>s pid p t. getChatSessionById st sid = Some s \<and> s_currentPersonaId s = Some pid \<and> pid \<noteq> 0
              \<and> getPersonaById st pid = Some p
              \<and> gen p (conversationHistory (getMessagesBySessionId st sid)) c = Some t
              \<and> trim t \<noteq> [] \<longrightarrow>
            (let u = \<lparr>m_id = nextMessageId st, m_sessionId = sid, m_role = User, m_content = c,
                       m_personaId = Some pid\<rparr>;
                 a = \<lparr>m_id = Suc (nextMessageId st), m_sessionId = sid, m_role = Assistant,
                       m_content = t, m_personaId = Some pid\<rparr>
             in fst (sendMessage gen st sid (Str c)) = Response 201 (MessagePair u a)
                \<and> messages (snd (sendMessage gen st sid (Str c))) = messages st @ [u, a]
                \<and> getMessagesBySessionId (snd (sendMessage gen st sid (Str c))) sid =
                    getMessagesBySessionId st sid @ [u, a]))"
proof (intro conjI allI impI)
  assume "getChatSessionById st sid = None"
  then show "sendMessage gen st sid (Str c) = (Response 404 (Message ''Chat session not found''), st)"
    by (simp add: sendMessage_valid_content [OF assms])
next
  fix s
  assume "getChatSessionById st sid = Some s
    \<and> (s_currentPersonaId s = None \<or> s_currentPersonaId s = Some 0)"
  then show "sendMessage gen st sid (Str c) =
      (Response 400 (Message ''No persona selected for this chat session''), st)"
    by (auto simp: sendMessage_valid_content [OF assms])
next
  fix s pid
  assume "getChatSessionById st sid = Some s \<and> s_currentPersonaId s = Some pid \<and> pid \<noteq> 0
    \<and> getPersonaById st pid = None"
  then show "sendMessage gen st sid (Str c) = (Response 404 (Message ''Persona not found''), st)"
    by (simp add: sendMessage_valid_content [OF assms])
next
  fix s pid p t
  assume h: "getChatSessionById st sid = Some s \<and> s_currentPersonaId s = Some pid \<and> pid \<noteq> 0
    \<and> getPersonaById st pid = Some p
    \<and> gen p (conversationHistory (getMessagesBySessionId st sid)) c = Some t
    \<and> trim t \<noteq> []"
  let ?u = "\<lparr>m_id = nextMessageId st, m_sessionId = sid, m_role = User, m_content = c,
              m_personaId = Some pid\<rparr>"
  let ?st1 = "st\<lparr>messages := messages st @ [?u], nextMessageId := Suc (nextMessageId st)\<rparr>"
  have s1: "getChatSessionById ?st1 sid = Some s"
    using h by (simp add: getChatSessionById_append)
  have "sendMessage gen st sid (Str c) = saveAssistantMessage ?st1 sid pid ?u t"
    using h sendMessage_after_checks [of c st sid s pid p gen] assms
    by (simp add: Let_def respondGenerated_def generatePersonaResponse_def)
  then show "let u = \<lparr>m_id = nextMessageId st, m_sessionId = sid, m_role = User, m_content = c,
                       m_personaId = Some pid\<rparr>;
                 a = \<lparr>m_id = Suc (nextMessageId st), m_sessionId = sid, m_role = Assistant,
                       m_content = t, m_personaId = Some pid\<rparr>
             in fst (sendMessage gen st sid (Str c)) = Response 201 (MessagePair u a)
                \<and> messages (snd (sendMessage gen st sid (Str c))) = messages st @ [u, a]
                \<and> getMessagesBySessionId (snd (sendMessage gen st sid (Str c))) sid =
                    getMessagesBySessionId st sid @ [u, a]"
    using h saveAssistantMessage_ok [of t ?st1 sid s pid ?u] s1
    by (simp add: Let_def getMessagesBySessionId_def)
qed

lemma trim_Echo_Hello: "trim ''Echo: Hello'' \<noteq> []"
  by (simp add: trim_def isWhiteSpace_def)

theorem sendMessage_checks_in_order_witness:
  "sendMessage echoGenerator exampleStore ''s9'' (Str ''Hello'') =
     (Response 404 (Message ''Chat session not found''), exampleStore)
   \<and> sendMessage echoGenerator exampleStore ''s2'' (Str ''Hello'') =
     (Response 400 (Message ''No persona selected for this chat session''), exampleStore)
   \<and> sendMessage echoGenerator danglingStore ''s3'' (Str ''Hello'') =
     (Response 404 (Message ''Persona not found''), danglingStore)
   \<and> fst (sendMessage echoGenerator exampleStore ''s1'' (Str ''Hello'')) =
     Response 201 (MessagePair
       \<lparr>m_id = 1, m_sessionId = ''s1'', m_role = User, m_content = ''Hello'', m_personaId = Some 1\<rparr>
       \<lparr>m_id = 2, m_sessionId = ''s1'', m_role = Assistant, m_content = ''Echo: Hello'',
         m_personaId = Some 1\<rparr>)
   \<and> getMessagesBySessionId (snd (sendMessage echoGenerator exampleStore ''s1'' (Str ''Hello''))) ''s1'' =
     [greeting,
      \<lparr>m_id = 1, m_sessionId = ''s1'', m_role = User, m_content = ''Hello'', m_personaId = Some 1\<rparr>,
      \<lparr>m_id = 2, m_sessionId = ''s1'', m_role = Assistant, m_content = ''Echo: Hello'',
        m_personaId = Some 1\<rparr>]"
proof -
  have a: "getChatSessionById exampleStore ''s9'' = None"
    by (simp add: getChatSessionById_def exampleStore_def)
  have b: "getChatSessionById exampleStore ''s2'' = Some \<lparr>s_sessionId = ''s2'', s_currentPersonaId = None\<rparr>"
    by (simp add: getChatSessionById_def exampleStore_def)
  have c: "getChatSessionById danglingStore ''s3'' = Some \<lparr>s_sessionId = ''s3'', s_currentPersonaId = Some 7\<rparr>"
    by (simp add: getChatSessionById_def danglingStore_def exampleStore_def)
  have d: "getPersonaById danglingStore 7 = None"
    by (simp add: getPersonaById_def danglingStore_def exampleStore_def ada_def plato_def)
  have e: "echoGenerator ada (conversationHistory (getMessagesBySessionId exampleStore ''s1'')) ''Hello''
      = Some ''Echo: Hello''"
    by (simp add: echoGenerator_def)
  have n: "nextMessageId exampleStore = 1" by (simp add: exampleStore_def)
  note t = sendMessage_checks_in_order [OF trim_Hello, where gen = echoGenerator]
  have 1: "sendMessage echoGenerator exampleStore ''s9'' (Str ''Hello'') =
     (Response 404 (Message ''Chat session not found''), exampleStore)"
    using t [where st = exampleStore and sid = "''s9''"] a by simp
  have 2: "sendMessage echoGenerator exampleStore ''s2'' (Str ''Hello'') =
     (Response 400 (Message ''No persona selected for this chat session''), exampleStore)"
    using t [where st = exampleStore and sid = "''s2''"] b by simp
  have 3: "sendMessage echoGenerator danglingStore ''s3'' (Str ''Hello'') =
     (Response 404 (Message ''Persona not found''), danglingStore)"
    using t [where st = danglingStore and sid = "''s3''"] c d by simp
  have 4: "fst (sendMessage echoGenerator exampleStore ''s1'' (Str ''Hello'')) =
     Response 201 (MessagePair
       \<lparr>m_id = 1, m_sessionId = ''s1'', m_role = User, m_content = ''Hello'', m_personaId = Some 1\<rparr>
       \<lparr>m_id = 2, m_sessionId = ''s1'', m_role = Assistant, m_content = ''Echo: Hello'',
         m_personaId = Some 1\<rparr>)
   \<and> getMessagesBySessionId (snd (sendMessage echoGenerator exampleStore ''s1'' (Str ''Hello''))) ''s1'' =
     [greeting,
      \<lparr>m_id = 1, m_sessionId = ''s1'', m_role = User, m_content = ''Hello'', m_personaId = Some 1\<rparr>,
      \<lparr>m_id = 2, m_sessionId = ''s1'', m_role = Assistant, m_content = ''Echo: Hello'',
        m_personaId = Some 1\<rparr>]"
    using t [where st = exampleStore and sid = "''s1''"] exampleStore_session_s1
      exampleStore_persona_1 e trim_Echo_Hello exampleStore_log_s1 n
    by (simp add: Let_def)
  from 1 2 3 4 show ?thesis by simp
qed

subsection \<open>What the generator is handed\<close>

lemma conversationHistory_priorConversation:
  "conversationHistory (getMessagesBySessionId st sid) =
     filter (\<lambda>(r, t). r \<noteq> System) (priorConversation st sid)"
  by (simp add: conversationHistory_def priorConversation_def filter_map comp_def)

text \<open>
  Claim C8 as stated (the history is the whole prior conversation) fails once the log
  holds a system message. In the example store the prior conversation of \<open>s1\<close> is one
  system message; the probing generator would answer on it, yet the route's call
  fails, as it does on the empty history only. So the answer of the route is not what
  it would be had the generator been handed the whole prior conversation.
\<close>

theorem sendMessage_history_counterexample:
  "priorConversation exampleStore ''s1'' = [(System, ''You are now chatting with Ada Lovelace.'')]
   \<and> probeGenerator ada (priorConversation exampleStore ''s1'') ''Hello'' = Some ''ok''
   \<and> status (fst (sendMessage probeGenerator exampleStore ''s1'' (Str ''Hello''))) = 503
   \<and> sendMessage probeGenerator exampleStore ''s1'' (Str ''Hello'') \<noteq>
       respondGenerated
         (exampleStore\<lparr>messages := messages exampleStore
             @ [\<lparr>m_id = 1, m_sessionId = ''s1'', m_role = User, m_content = ''Hello'',
                 m_personaId = Some 1\<rparr>],
           nextMessageId := 2\<rparr>)
         ''s1'' 1
         \<lparr>m_id = 1, m_sessionId = ''s1'', m_role = User, m_content = ''Hello'', m_personaId = Some 1\<rparr>
         (generatePersonaResponse probeGenerator ada (priorConversation exampleStore ''s1'') ''Hello'')"
  by code_simp

text \<open>
  Claim C8, amended. Once the checks have passed, the generator is called with the
  session's persona, with the prior conversation of the session as pairs of role and
  content, in order, without its system messages and without the user message just
  stored, and with the new text as a separate argument; the answer of the route is
  what lines 246 to 277 make of the generator's outcome.
\<close>

theorem sendMessage_generator_input:
  assumes "trim c \<noteq> []"
    and "getChatSessionById st sid = Some s"
    and "s_currentPersonaId s = Some pid"
    and "pid \<noteq> 0"
    and "getPersonaById st pid = Some p"
  shows "sendMessage gen st sid (Str c) =
     (let u = \<lparr>m_id = nextMessageId st, m_sessionId = sid, m_role = User, m_content = c,
                m_personaId = Some pid\<rparr>
      in respondGenerated
           (st\<lparr>messages := messages st @ [u], nextMessageId := Suc (nextMessageId st)\<rparr>)
           sid pid u
           (generatePersonaResponse gen p
              (filter (\<lambda>(r, t). r \<noteq> System) (priorConversation st sid)) c))"
  using sendMessage_after_checks [OF assms, of gen]
  by (simp only: conversationHistory_priorConversation)

lemma chattedStore_session_s1:
  "getChatSessionById chattedStore ''s1'' = Some \<lparr>s_sessionId = ''s1'', s_currentPersonaId = Some 1\<rparr>"
  by (simp add: getChatSessionById_def chattedStore_def exampleStore_def)

lemma chattedStore_persona_1: "getPersonaById chattedStore 1 = Some ada"
  by (simp add: getPersonaById_def chattedStore_def exampleStore_def ada_def)

lemma chattedStore_prior:
  "priorConversation chattedStore ''s1'' =
     [(System, ''You are now chatting with Ada Lovelace.''), (User, ''Hi''), (Assistant, ''Good day.'')]"
  by (simp add: priorConversation_def getMessagesBySessionId_def chattedStore_def greeting_def)

theorem sendMessage_generator_input_witness:
  "filter (\<lambda>(r, t). r \<noteq> System) (priorConversation chattedStore ''s1'') =
     [(User, ''Hi''), (Assistant, ''Good day.'')]
   \<and> sendMessage echoGenerator chattedStore ''s1'' (Str ''Hello'') =
      respondGenerated
        (chattedStore\<lparr>messages := messages chattedStore
            @ [\<lparr>m_id = 3, m_sessionId = ''s1'', m_role = User, m_content = ''Hello'',
                m_personaId = Some 1\<rparr>],
          nextMessageId := 4\<rparr>)
        ''s1'' 1
        \<lparr>m_id = 3, m_sessionId = ''s1'', m_role = User, m_content = ''Hello'', m_personaId = Some 1\<rparr>
        (generatePersonaResponse echoGenerator ada [(User, ''Hi''), (Assistant, ''Good day.'')] ''Hello'')"
proof -
  have n: "nextMessageId chattedStore = 3" by (simp add: chattedStore_def)
  have t: "trim ''Hello'' \<noteq> []" by (rule trim_Hello)
  show ?thesis
    using sendMessage_generator_input [where c = "''Hello''" and st = chattedStore and sid = "''s1''"
        and s = "\<lparr>s_sessionId = ''s1'', s_currentPersonaId = Some 1\<rparr>" and pid = 1 and p = ada
        and gen = echoGenerator]
      t chattedStore_session_s1 chattedStore_persona_1 chattedStore_prior n
    by (simp add: Let_def)
qed

section \<open>Creating or resuming a session\<close>

lemma find_sessionId:
  "find (\<lambda>s. s_sessionId s = sid) xs = Some es \<Longrightarrow> s_sessionId es = sid"
  by (induction xs) (auto split: if_splits)

lemma updateChatSessionPersona_ok:
  assumes "getChatSessionById st sid = Some es" and "getPersonaById st n = Some p"
  shows "updateChatSessionPersona st sid n =
     Inr (es\<lparr>s_currentPersonaId := Some n\<rparr>,
          st\<lparr>sessions :=
               map (\<lambda>x. if s_sessionId x = sid then x\<lparr>s_currentPersonaId := Some n\<rparr> else x)
                   (sessions st)\<rparr>)"
  using assms by (simp add: updateChatSessionPersona_def)

lemma createOrGetSession_found:
  assumes "getChatSessionById st sid = Some es" and "sid \<noteq> []"
  shows "createOrGetSession nanoid st (Some sid) personaId =
     (case validatePersonaId personaId of
        Num n \<Rightarrow>
          if n \<noteq> 0 \<and> s_currentPersonaId es \<noteq> Some n
          then (case updateChatSessionPersona st sid n of
                  Inl e \<Rightarrow> (createSession_catch e, st)
                | Inr (updatedSession, st') \<Rightarrow> (Response 200 (SessionJson updatedSession), st'))
          else (Response 200 (SessionJson es), st)
      | v \<Rightarrow> (Response 200 (SessionJson es), st))"
  unfolding createOrGetSession_def Let_def using assms by simp


text \<open>
  Claim C3, amended. Take a create-session call whose identifier, a non-empty string,
  already exists; the session found carries that identifier. When the call supplies no
  usable \<open>personaId\<close> (absent, null, zero, empty or not a number) or the one the session
  is bound to, the answer is 200 with the existing session, and the session and the
  store are unchanged. When the call supplies a different \<open>personaId\<close> that names a persona
  of the catalog, the answer is 200 with the session bound to that persona, and the
  store holds it so. Nothing is said of a different \<open>personaId\<close> that names no persona.
\<close>

theorem createOrGetSession_existing:
  assumes "getChatSessionById st sid = Some es" and "sid \<noteq> []"
  shows "s_sessionId es = sid
       \<and> (\<not> truthy (validatePersonaId personaId)
            \<or> validatePersonaId personaId = Num n \<and> s_currentPersonaId es = Some n \<longrightarrow>
          createOrGetSession nanoid st (Some sid) personaId = (Response 200 (SessionJson es), st))
       \<and> (validatePersonaId personaId = Num n \<and> n \<noteq> 0 \<and> s_currentPersonaId es \<noteq> Some n
            \<and> getPersonaById st n = Some p \<longrightarrow>
          createOrGetSession nanoid st (Some sid) personaId =
            (Response 200 (SessionJson (es\<lparr>s_currentPersonaId := Some n\<rparr>)),
             st\<lparr>sessions :=
                  map (\<lambda>x. if s_sessionId x = sid then x\<lparr>s_currentPersonaId := Some n\<rparr> else x)
                      (sessions st)\<rparr>))"
proof (intro conjI impI)
  show "s_sessionId es = sid"
    using assms(1) unfolding getChatSessionById_def by (rule find_sessionId)
next
  assume h: "\<not> truthy (validatePersonaId personaId)
            \<or> validatePersonaId personaId = Num n \<and> s_currentPersonaId es = Some n"
  show "createOrGetSession nanoid st (Some sid) personaId = (Response 200 (SessionJson es), st)"
  proof (cases "validatePersonaId personaId")
    case (Num k)
    with h have "k = 0 \<or> s_currentPersonaId es = Some k" by auto
    with Num show ?thesis
      by (auto simp add: createOrGetSession_found [OF assms])
  qed (simp_all add: createOrGetSession_found [OF assms])
next
  assume h: "validatePersonaId personaId = Num n \<and> n \<noteq> 0 \<and> s_currentPersonaId es \<noteq> Some n
            \<and> getPersonaById st n = Some p"
  then have "getPersonaById st n = Some p" by simp
  from updateChatSessionPersona_ok [OF assms(1) this] h
  show "createOrGetSession nanoid st (Some sid) personaId =
            (Response 200 (SessionJson (es\<lparr>s_currentPersonaId := Some n\<rparr>)),
             st\<lparr>sessions :=
                  map (\<lambda>x. if s_sessionId x = sid then x\<lparr>s_currentPersonaId := Some n\<rparr> else x)
                      (sessions st)\<rparr>)"
    by (simp add: createOrGetSession_found [OF assms])
qed


text \<open>
  Claim C3 as stated (the existing session comes back unchanged whatever \<open>personaId\<close>
  the call supplies) fails: resuming \<open>s1\<close>, bound to persona 1, with \<open>personaId\<close> "2"
  answers with the session bound to persona 2, and the store holds it so.
\<close>

theorem createOrGetSession_rebinds_counterexample:
  "getChatSessionById exampleStore ''s1'' =
     Some \<lparr>s_sessionId = ''s1'', s_currentPersonaId = Some 1\<rparr>
   \<and> fst (createOrGetSession ''n1'' exampleStore (Some ''s1'') (Str ''2'')) =
       Response 200 (SessionJson \<lparr>s_sessionId = ''s1'', s_currentPersonaId = Some 2\<rparr>)
   \<and> getChatSessionById (snd (createOrGetSession ''n1'' exampleStore (Some ''s1'') (Str ''2''))) ''s1'' =
       Some \<lparr>s_sessionId = ''s1'', s_currentPersonaId = Some 2\<rparr>
   \<and> createOrGetSession ''n1'' exampleStore (Some ''s1'') (Str ''2'') \<noteq>
       (Response 200 (SessionJson \<lparr>s_sessionId = ''s1'', s_currentPersonaId = Some 1\<rparr>), exampleStore)"
  by code_simp

theorem createOrGetSession_existing_witness:
  "createOrGetSession ''n1'' exampleStore (Some ''s1'') Undefined =
     (Response 200 (SessionJson \<lparr>s_sessionId = ''s1'', s_currentPersonaId = Some 1\<rparr>), exampleStore)
   \<and> createOrGetSession ''n1'' exampleStore (Some ''s1'') (Num 1) =
     (Response 200 (SessionJson \<lparr>s_sessionId = ''s1'', s_currentPersonaId = Some 1\<rparr>), exampleStore)
   \<and> fst (createOrGetSession ''n1'' exampleStore (Some ''s1'') (Num 2)) =
     Response 200 (SessionJson \<lparr>s_sessionId = ''s1'', s_currentPersonaId = Some 2\<rparr>)"
proof -
  have p: "getPersonaById exampleStore 2 = Some plato"
    by code_simp
  have ne: "''s1'' \<noteq> []" by simp
  note t = createOrGetSession_existing [OF exampleStore_session_s1 ne, where nanoid = "''n1''"]
  have 1: "createOrGetSession ''n1'' exampleStore (Some ''s1'') Undefined =
     (Response 200 (SessionJson \<lparr>s_sessionId = ''s1'', s_currentPersonaId = Some 1\<rparr>), exampleStore)"
    using t [where personaId = Undefined] by (simp add: validatePersonaId_def)
  have 2: "createOrGetSession ''n1'' exampleStore (Some ''s1'') (Num 1) =
     (Response 200 (SessionJson \<lparr>s_sessionId = ''s1'', s_currentPersonaId = Some 1\<rparr>), exampleStore)"
    using t [where personaId = "Num 1" and n = 1] by (simp add: validatePersonaId_def)
  have 3: "fst (createOrGetSession ''n1'' exampleStore (Some ''s1'') (Num 2)) =
     Response 200 (SessionJson \<lparr>s_sessionId = ''s1'', s_currentPersonaId = Some 2\<rparr>)"
    using t [where personaId = "Num 2" and n = 2 and p = plato] p by (simp add: validatePersonaId_def)
  from 1 2 3 show ?thesis by simp
qed

section \<open>Clearing the messages of a session\<close>

text \<open>
  Claim C7 at its failing input. The log of \<open>s1\<close> holds one message; the DELETE route
  answers 204 and the log of \<open>s1\<close> still holds that message, so it is not empty.
\<close>

theorem clearMessages_keeps_log:
  "getMessagesBySessionId exampleStore ''s1'' = [greeting]
   \<and> fst (clearMessages exampleStore ''s1'') = Response 204 Empty
   \<and> getMessagesBySessionId (snd (clearMessages exampleStore ''s1'')) ''s1'' = [greeting]
   \<and> getMessagesBySessionId (snd (clearMessages exampleStore ''s1'')) ''s1'' \<noteq> []"
  by (simp add: clearMessages_def exampleStore_log_s1)

text \<open>
  The handler as written answers 204 for every session and store, also for a session
  without messages, and leaves the store as it was.
\<close>

lemma clearMessages_answers_204:
  "clearMessages st sid = (Response 204 Empty, st)
   \<and> clearMessages (snd (clearMessages st sid)) sid = clearMessages st sid"
  by (simp add: clearMessages_def)

section \<open>Searching the personas\<close>

lemma containsIgnoringCase_empty: "containsIgnoringCase t []"
  by (cases "toLowerCase t") (simp_all add: containsIgnoringCase_code toLowerCase_def startsWith_def)

text \<open>
  Claim C9. For every query string the search route answers 200 with exactly the
  personas, in catalog order, whose name or description contains the query
  case-insensitively, and so does the sidebar's filter when every category is
  selected; when no persona matches, the answer is the empty sequence with status 200.
\<close>

theorem searchPersonas_matching_subset:
  "searchPersonasRoute st (Some q) =
     (Response 200 (Personas (filter (\<lambda>p. containsIgnoringCase (p_name p) q
                                          \<or> containsIgnoringCase (p_description p) q)
                                     (personas st))), st)
   \<and> filteredPersonas ps q ''All'' =
       filter (\<lambda>p. containsIgnoringCase (p_name p) q \<or> containsIgnoringCase (p_description p) q) ps
   \<and> ((\<forall>p\<in>set (personas st). \<not> containsIgnoringCase (p_name p) q
                                   \<and> \<not> containsIgnoringCase (p_description p) q) \<longrightarrow>
        searchPersonasRoute st (Some q) = (Response 200 (Personas []), st))"
proof (intro conjI impI)
  show r: "searchPersonasRoute st (Some q) =
     (Response 200 (Personas (filter (\<lambda>p. containsIgnoringCase (p_name p) q
                                          \<or> containsIgnoringCase (p_description p) q)
                                     (personas st))), st)"
  proof (cases "q = []")
    case True
    then show ?thesis
      by (simp add: searchPersonasRoute_def getPersonas_def containsIgnoringCase_empty)
  next
    case False
    then show ?thesis
      by (simp add: searchPersonasRoute_def searchPersonas_def containsIgnoringCase_code)
  qed
  show "filteredPersonas ps q ''All'' =
       filter (\<lambda>p. containsIgnoringCase (p_name p) q \<or> containsIgnoringCase (p_description p) q) ps"
  proof (cases "q = []")
    case True
    then show ?thesis
      by (simp add: filteredPersonas_def containsIgnoringCase_empty)
  next
    case False
    then show ?thesis
      by (simp add: filteredPersonas_def containsIgnoringCase_code)
  qed
  assume "\<forall>p\<in>set (personas st). \<not> containsIgnoringCase (p_name p) q
                                   \<and> \<not> containsIgnoringCase (p_description p) q"
  then have "filter (\<lambda>p. containsIgnoringCase (p_name p) q \<or> containsIgnoringCase (p_description p) q)
      (personas st) = []"
    by (simp add: filter_empty_conv)
  with r show "searchPersonasRoute st (Some q) = (Response 200 (Personas []), st)" by simp
qed

theorem searchPersonas_matching_subset_witness:
  "searchPersonasRoute exampleStore (Some ''PHILO'') = (Response 200 (Personas [plato]), exampleStore)
   \<and> filteredPersonas [ada, plato] ''lovelace'' ''All'' = [ada]
   \<and> searchPersonasRoute exampleStore (Some ''zeno'') = (Response 200 (Personas []), exampleStore)"
proof -
  have a: "containsIgnoringCase (p_name ada) ''PHILO'' = False"
          "containsIgnoringCase (p_description ada) ''PHILO'' = False"
          "containsIgnoringCase (p_description plato) ''PHILO'' = True"
          "containsIgnoringCase (p_name ada) ''lovelace'' = True"
          "containsIgnoringCase (p_name plato) ''lovelace'' = False"
          "containsIgnoringCase (p_description plato) ''lovelace'' = False"
          "containsIgnoringCase (p_name ada) ''zeno'' = False"
          "containsIgnoringCase (p_description ada) ''zeno'' = False"
          "containsIgnoringCase (p_name plato) ''zeno'' = False"
          "containsIgnoringCase (p_description plato) ''zeno'' = False"
    unfolding containsIgnoringCase_code by code_simp+
  have ps: "personas exampleStore = [ada, plato]" by (simp add: exampleStore_def)
  have 1: "searchPersonasRoute exampleStore (Some ''PHILO'') =
      (Response 200 (Personas [plato]), exampleStore)"
    using searchPersonas_matching_subset [of exampleStore "''PHILO''"] by (simp add: ps a)
  have 2: "filteredPersonas [ada, plato] ''lovelace'' ''All'' = [ada]"
    using searchPersonas_matching_subset [of exampleStore "''lovelace''" "[ada, plato]"] by (simp add: a)
  have 3: "searchPersonasRoute exampleStore (Some ''zeno'') = (Response 200 (Personas []), exampleStore)"
    using searchPersonas_matching_subset [of exampleStore "''zeno''"] by (simp add: ps a)
  from 1 2 3 show ?thesis by simp
qed

text \<open>
  Claim C10. With a missing or empty query the search route answers 200 with the whole
  catalog.
\<close>

theorem searchPersonas_empty_query:
  "searchPersonasRoute st None = (Response 200 (Personas (personas st)), st)
   \<and> searchPersonasRoute st (Some []) = (Response 200 (Personas (personas st)), st)"
  by (simp add: searchPersonasRoute_def getPersonas_def)

theorem searchPersonas_empty_query_witness:
  "searchPersonasRoute exampleStore None = (Response 200 (Personas [ada, plato]), exampleStore)
   \<and> searchPersonasRoute exampleStore (Some []) = (Response 200 (Personas [ada, plato]), exampleStore)"
  using searchPersonas_empty_query [of exampleStore] by (simp add: exampleStore_def)

section \<open>Changing the persona of a session\<close>

lemma systemNotice_not_blank: "trim (''You are now chatting with '' @ name @ ''.'') \<noteq> []"
proof -
  have "\<not> isWhiteSpace CHR ''Y''" by (simp add: isWhiteSpace_def)
  then have "\<not> (\<forall>ch\<in>set (''You are now chatting with '' @ name @ ''.''). isWhiteSpace ch)"
    by simp
  then show ?thesis unfolding trim_empty_iff .
qed

lemma getChatSessionById_rebound:
  "getChatSessionById
     (st\<lparr>sessions := map (\<lambda>x. if s_sessionId x = sid then x\<lparr>s_currentPersonaId := v\<rparr> else x)
                          (sessions st)\<rparr>) sid =
   map_option (\<lambda>x. x\<lparr>s_currentPersonaId := v\<rparr>) (getChatSessionById st sid)"
proof -
  have "find (\<lambda>s. s_sessionId s = sid)
        (map (\<lambda>x. if s_sessionId x = sid then x\<lparr>s_currentPersonaId := v\<rparr> else x) xs) =
     map_option (\<lambda>x. x\<lparr>s_currentPersonaId := v\<rparr>) (find (\<lambda>s. s_sessionId s = sid) xs)" for xs
    by (induction xs) auto
  then show ?thesis by (simp add: getChatSessionById_def)
qed

text \<open>
  The PATCH route, given a persona of the catalog and an existing session, binds the
  session to the persona and appends one system message naming it at the end of the
  session's log.
\<close>

lemma changePersona_appends_system_message:
  assumes "truthy personaId"
    and "parseIntOfToString personaId = Num n"
    and "getPersonaById st n = Some p"
    and "getChatSessionById st sid = Some s"
  shows "fst (changePersona st sid personaId) =
           Response 200 (SessionJson (s\<lparr>s_currentPersonaId := Some n\<rparr>))
       \<and> getChatSessionById (snd (changePersona st sid personaId)) sid =
           Some (s\<lparr>s_currentPersonaId := Some n\<rparr>)
       \<and> getMessagesBySessionId (snd (changePersona st sid personaId)) sid =
           getMessagesBySessionId st sid
             @ [\<lparr>m_id = nextMessageId st, m_sessionId = sid, m_role = System,
                  m_content = ''You are now chatting with '' @ p_name p @ ''.'',
                  m_personaId = Some n\<rparr>]"
proof -
  let ?st1 = "st\<lparr>sessions :=
               map (\<lambda>x. if s_sessionId x = sid then x\<lparr>s_currentPersonaId := Some n\<rparr> else x)
                   (sessions st)\<rparr>"
  let ?d = "\<lparr>im_sessionId = sid, im_role = System,
             im_content = ''You are now chatting with '' @ p_name p @ ''.'',
             im_personaId = Some n\<rparr>"
  let ?m = "\<lparr>m_id = nextMessageId st, m_sessionId = sid, m_role = System,
             m_content = ''You are now chatting with '' @ p_name p @ ''.'',
             m_personaId = Some n\<rparr>"
  have s1: "getChatSessionById ?st1 sid = Some (s\<lparr>s_currentPersonaId := Some n\<rparr>)"
    using assms(4) by (simp add: getChatSessionById_rebound)
  have cm: "createMessage ?st1 ?d =
      Inr (?m, ?st1\<lparr>messages := messages ?st1 @ [?m], nextMessageId := Suc (nextMessageId ?st1)\<rparr>)"
    using createMessage_ok [of ?d ?st1 "s\<lparr>s_currentPersonaId := Some n\<rparr>"] s1
      systemNotice_not_blank [of "p_name p"]
    by simp
  have r: "changePersona st sid personaId =
      (Response 200 (SessionJson (s\<lparr>s_currentPersonaId := Some n\<rparr>)),
       ?st1\<lparr>messages := messages ?st1 @ [?m], nextMessageId := Suc (nextMessageId ?st1)\<rparr>)"
    using assms updateChatSessionPersona_ok [OF assms(4) assms(3)] cm
    by (simp add: changePersona_def)
  show ?thesis
    using s1 by (simp add: r getMessagesBySessionId_def getChatSessionById_def)
qed

text \<open>
  Claim C2 at its failing input. Resuming session \<open>s1\<close>, bound to persona 1, through
  POST /api/sessions with \<open>personaId\<close> 2 binds it to persona 2 and leaves the message
  log as it was: no system message records the change.
\<close>

theorem createOrGetSession_rebinds_silently:
  "getChatSessionById exampleStore ''s1'' =
     Some \<lparr>s_sessionId = ''s1'', s_currentPersonaId = Some 1\<rparr>
   \<and> fst (createOrGetSession ''n1'' exampleStore (Some ''s1'') (Num 2)) =
       Response 200 (SessionJson \<lparr>s_sessionId = ''s1'', s_currentPersonaId = Some 2\<rparr>)
   \<and> messages (snd (createOrGetSession ''n1'' exampleStore (Some ''s1'') (Num 2))) =
       messages exampleStore
   \<and> getMessagesBySessionId (snd (createOrGetSession ''n1'' exampleStore (Some ''s1'') (Num 2))) ''s1'' =
       [greeting]"
  by code_simp

text \<open>The PATCH route on the same store: the notice is appended, an unknown persona is refused.\<close>

lemma changePersona_example:
  "getMessagesBySessionId (snd (changePersona exampleStore ''s1'' (Num 2))) ''s1'' =
       [greeting,
        \<lparr>m_id = 1, m_sessionId = ''s1'', m_role = System,
          m_content = ''You are now chatting with Plato.'', m_personaId = Some 2\<rparr>]
   \<and> fst (changePersona exampleStore ''s1'' (Num 999)) = Response 404 (Message ''Persona not found'')
   \<and> snd (changePersona exampleStore ''s1'' (Num 999)) = exampleStore"
  by code_simp

text \<open>
  Claim C4 at its failing input. In the example store every session's persona is in the
  catalog and persona 999 is not; POST /api/sessions with \<open>personaId\<close> 999 and no
  \<open>sessionId\<close>, or with an unknown \<open>sessionId\<close>, creates a session bound to 999.
\<close>

theorem createOrGetSession_binds_unknown_persona:
  "personaRefsValid exampleStore
   \<and> getPersonaById exampleStore 999 = None
   \<and> createOrGetSession ''n1'' exampleStore None (Num 999) =
       (Response 201 (SessionJson \<lparr>s_sessionId = ''n1'', s_currentPersonaId = Some 999\<rparr>),
        exampleStore\<lparr>sessions := sessions exampleStore
                          @ [\<lparr>s_sessionId = ''n1'', s_currentPersonaId = Some 999\<rparr>]\<rparr>)
   \<and> \<not> personaRefsValid (snd (createOrGetSession ''n1'' exampleStore None (Num 999)))
   \<and> \<not> personaRefsValid (snd (createOrGetSession ''n1'' exampleStore (Some ''s7'') (Str ''999'')))"
  by code_simp

end
